theory Spec2Isabelle
  imports Complex_Main
begin

section \<open>The audio engine\<close>

text \<open>
  The three components of the sources (Convolver, CrossFade, AmplitudeEnvelope) build and
  rewire a graph of engine nodes. The engine is the Web Audio API, which the sources call
  through \<^verbatim>\<open>this.context\<close>: node factories, \<^verbatim>\<open>connect\<close> and \<^verbatim>\<open>disconnect\<close>.
  It is modelled as a store: a counter that hands out fresh node identities, the set of
  connections, the kind of every node, the attributes of the native convolution units,
  the own values of the control parameters, and the nodes that have been disposed.

  Naming: a leading underscore of a source name is written \<open>u_\<close> (\<^verbatim>\<open>_convolver\<close> is
  \<open>u_convolver\<close>), and the fields \<^verbatim>\<open>context\<close>, \<^verbatim>\<open>input\<close>, \<^verbatim>\<open>output\<close> of a node are
  \<open>node_context\<close>, \<open>node_input\<close>, \<open>node_output\<close>, since two of these words are reserved.
\<close>

type_synonym node_id = nat

text \<open>Decoded sample data. The sources never look at a sample, only at the length.\<close>

type_synonym AudioBuffer = "real list"

text \<open>A connection runs from an output of a node to the input of a node or to the
  control parameter (AudioParam) of a node.\<close>

datatype destination = Input node_id | Param node_id

type_synonym connection = "node_id \<times> nat \<times> destination"

text \<open>The native ConvolverNode: the attributes the Convolver reads and writes.\<close>

record ConvolverNode =
  buffer :: "AudioBuffer option"
  normalize :: bool

text \<open>What a node of the engine is: a constant source (a Signal is one), a gain stage, a
  stereo panner, a channel splitter, the wave shaper of GainToAudio, a convolution unit.\<close>

datatype node_kind = Source | Gain | Panner | Splitter | Shaper | Convolution

record BaseContext =
  next_node :: node_id
  connections :: "connection set"
  kinds :: "node_id \<Rightarrow> node_kind"
  convolvers :: "node_id \<Rightarrow> ConvolverNode"
  params :: "node_id \<Rightarrow> real"
  disposed_nodes :: "node_id set"

text \<open>Modelled from the spec: the engine's node factories (section 6, external). A factory
  returns a node that did not exist before, of the kind asked for. A node has one control
  parameter at most (the gain of a gain stage, the pan of a panner, the offset of a
  constant source); it is created with the parameter's own value.\<close>

definition createNode :: "node_kind \<Rightarrow> real \<Rightarrow> BaseContext \<Rightarrow> node_id \<times> BaseContext" where
  "createNode k v ctx =
     (next_node ctx,
      ctx\<lparr>next_node := next_node ctx + 1,
          kinds := (kinds ctx)(next_node ctx := k),
          params := (params ctx)(next_node ctx := v)\<rparr>)"

text \<open>Modelled from the spec: the engine's factory of convolution units (section 6,
  external). By the ConvolverNode interface that the Convolver's documentation refers to,
  a new unit has no buffer and normalizes.\<close>

definition createConvolver :: "BaseContext \<Rightarrow> node_id \<times> BaseContext" where
  "createConvolver ctx =
     (next_node ctx,
      ctx\<lparr>next_node := next_node ctx + 1,
          kinds := (kinds ctx)(next_node ctx := Convolution),
          convolvers := (convolvers ctx)(next_node ctx := \<lparr>buffer = None, normalize = True\<rparr>)\<rparr>)"

text \<open>Modelled from the spec: the engine's connection primitives (sections 4.1 and 6).
  Connecting is additive; \<^verbatim>\<open>disconnect()\<close> without a target removes every outgoing
  connection of the node and never fails.\<close>

definition connect :: "node_id \<Rightarrow> destination \<Rightarrow> nat \<Rightarrow> BaseContext \<Rightarrow> BaseContext" where
  "connect src dst outputNumber ctx =
     ctx\<lparr>connections := insert (src, outputNumber, dst) (connections ctx)\<rparr>"

definition disconnect :: "node_id \<Rightarrow> BaseContext \<Rightarrow> BaseContext" where
  "disconnect src ctx =
     ctx\<lparr>connections := Set.filter (\<lambda>e. fst e \<noteq> src) (connections ctx)\<rparr>"

text \<open>Modelled from the spec: disposal of an owned sub-node (Gain, Signal, GainToAudio;
  their files are not among the sources). Section 4.1: dispose disconnects all edges,
  which the disconnect primitive does for the outgoing ones, and marks the node
  disposed.\<close>

definition disposeNode :: "node_id \<Rightarrow> BaseContext \<Rightarrow> BaseContext" where
  "disposeNode n ctx = (disconnect n ctx)\<lparr>disposed_nodes := insert n (disposed_nodes ctx)\<rparr>"

subsection \<open>The control signals the engine computes\<close>

text \<open>A signal is a pair of a left and a right value; a one-channel signal has the same
  value on both sides, which is how the engine mixes it up to two channels. Mixing two
  channels down to one takes their mean. Real numbers stand for the engine's
  floating-point samples, and a signal that does not vary in time for its stream of
  samples.\<close>

type_synonym signal = "real \<times> real"

definition mono :: "signal \<Rightarrow> real" where
  "mono s = (fst s + snd s) / 2"

text \<open>Modelled from the spec: GainToAudio (its file is not among the sources) maps the
  normal range [0,1] onto the audio range [-1,1], the domain of the panner's \<^verbatim>\<open>pan\<close>
  (section 4.5; the comment of \<^verbatim>\<open>_g2a\<close> in CrossFade). The map is taken as exact.\<close>

definition GainToAudio :: "real \<Rightarrow> real" where
  "GainToAudio v = v * 2 - 1"

text \<open>Modelled from the spec: the engine's StereoPannerNode on a one-channel input
  (section 4.5, a sine/cosine power split; the Web Audio equal-power panning): the pan
  is clamped to [-1,1] and mapped to a quarter turn, the left gain is its cosine and the
  right gain its sine.\<close>

definition StereoPanner :: "real \<Rightarrow> real \<Rightarrow> signal" where
  "StereoPanner pan v =
     (let p = (max (- 1) (min 1 pan) + 1) / 2
      in (v * cos (p * pi / 2), v * sin (p * pi / 2)))"

text \<open>Modelled from the spec: connections that end at the same input are summed (section
  4.1, connecting is additive). The sum exists when every connected output has a value.\<close>

definition mixed :: "(connection \<Rightarrow> signal option) \<Rightarrow> connection set \<Rightarrow> signal option" where
  "mixed f S =
     (if finite S \<and> (\<forall>e \<in> S. f e \<noteq> None)
      then Some (\<Sum>e \<in> S. case f e of Some v \<Rightarrow> fst v | None \<Rightarrow> 0,
                 \<Sum>e \<in> S. case f e of Some v \<Rightarrow> snd v | None \<Rightarrow> 0)
      else None)"

text \<open>Modelled from the spec: what output \<open>k\<close> of node \<open>n\<close> carries, computed from the
  connections of the context. The fuel bounds the length of the paths followed, so that
  a cycle of connections yields no value. A signal connected to a control parameter is
  mixed down to one channel and added to the parameter's own value. A constant source
  puts out its offset, a gain stage scales its input, a panner pans the one-channel mix
  of its input, a splitter hands channel \<open>k\<close> of its input to output \<open>k\<close>, the shaper
  applies GainToAudio; the arithmetic of a convolution unit is not modelled.\<close>

fun signal_out :: "nat \<Rightarrow> BaseContext \<Rightarrow> node_id \<Rightarrow> nat \<Rightarrow> signal option" where
  "signal_out 0 ctx n k = None"
| "signal_out (Suc fuel) ctx n k =
     (let inp = mixed (\<lambda>e. signal_out fuel ctx (fst e) (fst (snd e)))
                  (Set.filter (\<lambda>e. snd (snd e) = Input n) (connections ctx));
          par = mixed (\<lambda>e. signal_out fuel ctx (fst e) (fst (snd e)))
                  (Set.filter (\<lambda>e. snd (snd e) = Param n) (connections ctx))
      in case kinds ctx n of
           Source \<Rightarrow> Some (params ctx n, params ctx n)
         | Gain \<Rightarrow>
             (case (inp, par) of
                (Some s, Some p) \<Rightarrow>
                  Some ((params ctx n + mono p) * fst s, (params ctx n + mono p) * snd s)
              | _ \<Rightarrow> None)
         | Panner \<Rightarrow>
             (case (inp, par) of
                (Some s, Some p) \<Rightarrow> Some (StereoPanner (params ctx n + mono p) (mono s))
              | _ \<Rightarrow> None)
         | Splitter \<Rightarrow>
             (case inp of
                Some s \<Rightarrow>
                  Some (if k = 0 then (fst s, fst s) else if k = 1 then (snd s, snd s) else (0, 0))
              | None \<Rightarrow> None)
         | Shaper \<Rightarrow>
             (case inp of
                Some s \<Rightarrow> Some (GainToAudio (fst s), GainToAudio (snd s))
              | None \<Rightarrow> None)
         | Convolution \<Rightarrow> None)"

text \<open>Modelled from the spec: the value of the control parameter of node \<open>n\<close> (section
  4.2, a connected signal drives the destination parameter): its own value plus what is
  connected to it.\<close>

definition param_value :: "nat \<Rightarrow> BaseContext \<Rightarrow> node_id \<Rightarrow> real option" where
  "param_value fuel ctx n =
     (case mixed (\<lambda>e. signal_out fuel ctx (fst e) (fst (snd e)))
             (Set.filter (\<lambda>e. snd (snd e) = Param n) (connections ctx)) of
        Some p \<Rightarrow> Some (params ctx n + mono p)
      | None \<Rightarrow> None)"

section \<open>The Resource Buffer\<close>

text \<open>Modelled from the spec: ToneAudioBuffer (its file is not among the sources).
  Section 3: raw sample data, length 0 when empty, loaded exactly when the length is
  positive.\<close>

record ToneAudioBuffer =
  data :: "AudioBuffer option"

definition ToneAudioBuffer_length :: "ToneAudioBuffer \<Rightarrow> nat" where
  "ToneAudioBuffer_length b = (case data b of None \<Rightarrow> 0 | Some d \<Rightarrow> length d)"

definition ToneAudioBuffer_loaded :: "ToneAudioBuffer \<Rightarrow> bool" where
  "ToneAudioBuffer_loaded b = (0 < ToneAudioBuffer_length b)"

definition ToneAudioBuffer_get :: "ToneAudioBuffer \<Rightarrow> AudioBuffer option" where
  "ToneAudioBuffer_get b = data b"

text \<open>Modelled from the spec: \<^verbatim>\<open>set\<close> assigns the data of the given buffer to the
  Resource Buffer (section 4.6).\<close>

definition ToneAudioBuffer_set :: "ToneAudioBuffer \<Rightarrow> ToneAudioBuffer \<Rightarrow> ToneAudioBuffer" where
  "ToneAudioBuffer_set b src = b\<lparr>data := data src\<rparr>"

text \<open>Modelled from the spec: disposing a Resource Buffer releases its data.\<close>

definition ToneAudioBuffer_dispose :: "ToneAudioBuffer \<Rightarrow> ToneAudioBuffer" where
  "ToneAudioBuffer_dispose b = b\<lparr>data := None\<rparr>"

text \<open>The source of a buffer, as the Convolver's constructor accepts it: a URL, raw
  decoded data, or another Resource Buffer.\<close>

datatype url = Url string | Raw AudioBuffer | Buf ToneAudioBuffer

text \<open>Modelled from the spec: construction of a Resource Buffer (section 3: created empty
  or with a source reference). Inline data is there at once; a URL is loaded later.\<close>

fun ToneAudioBuffer_new :: "url option \<Rightarrow> ToneAudioBuffer" where
  "ToneAudioBuffer_new None = \<lparr>data = None\<rparr>"
| "ToneAudioBuffer_new (Some (Url u)) = \<lparr>data = None\<rparr>"
| "ToneAudioBuffer_new (Some (Raw d)) = \<lparr>data = Some d\<rparr>"
| "ToneAudioBuffer_new (Some (Buf b)) = \<lparr>data = data b\<rparr>"

text \<open>The errors of section 7.\<close>

datatype error =
  FetchError | DecodeError | InvalidPortError | RangeError | TimingError | ReadOnlyError
| DisposedError

text \<open>Modelled from the spec: \<^verbatim>\<open>ToneAudioBuffer.load\<close>. The external loader (section 6)
  answers a URL with decoded data or with an error; the failure is surfaced unchanged and
  leaves the prior buffer as it was (section 7); on success the data replaces the prior
  data and the promise resolves with the buffer itself.\<close>

definition ToneAudioBuffer_load ::
  "(string \<Rightarrow> error + AudioBuffer) \<Rightarrow> string \<Rightarrow> ToneAudioBuffer \<Rightarrow> (error + unit) \<times> ToneAudioBuffer" where
  "ToneAudioBuffer_load loader u b =
     (case loader u of
        Inl e \<Rightarrow> (Inl e, b)
      | Inr d \<Rightarrow> (Inr (), b\<lparr>data := Some d\<rparr>))"

section \<open>Processing nodes and effects\<close>

text \<open>Modelled from the spec: the graph base ToneAudioNode (section 3, Processing Node):
  input and output ports, the ordered list of internally owned units, a disposed flag.\<close>

record ToneAudioNode =
  node_context :: BaseContext
  node_input :: "node_id option"
  node_output :: "node_id option"
  u_internalChannels :: "node_id list"
  disposed :: bool

definition port_nodes :: "node_id option \<Rightarrow> node_id list" where
  "port_nodes p = (case p of None \<Rightarrow> [] | Some n \<Rightarrow> [n])"

text \<open>Modelled from the spec: \<^verbatim>\<open>ToneAudioNode.dispose\<close> (section 4.1): disposes every
  owned sub-node in reverse order of acquisition, holds no reference to a unit afterwards,
  and marks the node disposed.\<close>

definition ToneAudioNode_dispose :: "'a ToneAudioNode_scheme \<Rightarrow> 'a ToneAudioNode_scheme" where
  "ToneAudioNode_dispose n =
     n\<lparr>node_context :=
         fold disposeNode
           (rev (u_internalChannels n) @ port_nodes (node_output n) @ port_nodes (node_input n))
           (node_context n),
       u_internalChannels := [],
       disposed := True\<rparr>"





text \<open>Modelled from the spec: the Effect base class (its file is not among the sources).
  The Convolver uses its send stage \<^verbatim>\<open>effectSend\<close> and \<^verbatim>\<open>connectEffect\<close>; by section 4.1
  the internal unit sits between a send stage and a return stage, and the node's own
  ports are what other nodes connect to. The ports and the two stages are gain stages;
  the two stages are on the list of internally owned units.\<close>

record Effect = ToneAudioNode +
  effectSend :: node_id
  effectReturn :: node_id

definition Effect_new :: "BaseContext \<Rightarrow> Effect" where
  "Effect_new ctx =
     (let (inp, ctx1) = createNode Gain 1 ctx;
          (outp, ctx2) = createNode Gain 1 ctx1;
          (send, ctx3) = createNode Gain 1 ctx2;
          (ret, ctx4) = createNode Gain 1 ctx3;
          ctx5 = connect inp (Input send) 0 ctx4;
          ctx6 = connect ret (Input outp) 0 ctx5
      in \<lparr>node_context = ctx6, node_input = Some inp, node_output = Some outp,
          u_internalChannels = [send, ret], disposed = False,
          effectSend = send, effectReturn = ret\<rparr>)"

text \<open>Modelled from the spec: \<^verbatim>\<open>connectEffect\<close> puts the unit on the node's list of
  internally owned units (sections 3 and 4.6: the node owns the unit and disposes what is
  on the list) and wires it between the send stage and the return stage.\<close>

definition connectEffect :: "node_id \<Rightarrow> 'a Effect_scheme \<Rightarrow> 'a Effect_scheme" where
  "connectEffect effect e =
     e\<lparr>u_internalChannels := u_internalChannels e @ [effect],
       node_context :=
         connect effect (Input (effectReturn e)) 0
           (connect (effectSend e) (Input effect) 0 (node_context e))\<rparr>"

definition Effect_dispose :: "'a Effect_scheme \<Rightarrow> 'a Effect_scheme" where
  "Effect_dispose e =
     (let e1 = ToneAudioNode_dispose e
      in e1\<lparr>node_context :=
             disposeNode (effectReturn e1) (disposeNode (effectSend e1) (node_context e1))\<rparr>)"

section \<open>Convolver\<close>

text \<open>The options of \<^verbatim>\<open>ToneConvolverOptions\<close>. The fields inherited from
  \<^verbatim>\<open>EffectOptions\<close> are declared outside the sources and are carried as they come.\<close>

record ('e, 'w) ToneConvolverOptions =
  effect_options :: 'e
  opt_onload :: "'w \<Rightarrow> 'w"
  opt_normalize :: bool
  opt_url :: "url option"

text \<open>Modelled from the spec: \<^verbatim>\<open>noOp\<close> of the missing interface utilities, the callback
  that does nothing. A callback \<^verbatim>\<open>() => void\<close> acts on the world \<open>'w\<close> outside the
  effect.\<close>

definition noOp :: "'w \<Rightarrow> 'w" where
  "noOp w = w"

text \<open>\<^verbatim>\<open>Convolver.getDefaults\<close>: \<^verbatim>\<open>Object.assign(Effect.getDefaults(), {normalize: true,
  onload: noOp})\<close>. The defaults of the base class are a parameter.\<close>

definition Convolver_getDefaults :: "'e \<Rightarrow> ('e, 'w) ToneConvolverOptions" where
  "Convolver_getDefaults effect_defaults =
     \<lparr>effect_options = effect_defaults, opt_onload = noOp, opt_normalize = True,
      opt_url = None\<rparr>"

text \<open>The arguments of the constructor: none, the shorthand \<^verbatim>\<open>(url?, onload?)\<close>, or an
  options object whose fields may be absent.\<close>

record 'w ToneConvolverPartial =
  given_onload :: "('w \<Rightarrow> 'w) option"
  given_normalize :: "bool option"
  given_url :: "url option"

datatype 'w Convolver_arguments =
  NoArguments
| Shorthand "url option" "('w \<Rightarrow> 'w) option"
| OptionsObject "'w ToneConvolverPartial"

text \<open>Modelled from the spec: \<^verbatim>\<open>optionsFromArguments\<close> (section 6): positional shorthand
  or one configuration object, an absent field takes the default.\<close>

fun Convolver_optionsFromArguments ::
  "('e, 'w) ToneConvolverOptions \<Rightarrow> 'w Convolver_arguments \<Rightarrow> ('e, 'w) ToneConvolverOptions" where
  "Convolver_optionsFromArguments defaults NoArguments = defaults"
| "Convolver_optionsFromArguments defaults (Shorthand u f) =
     defaults\<lparr>opt_url := (case u of None \<Rightarrow> opt_url defaults | Some x \<Rightarrow> Some x),
              opt_onload := (case f of None \<Rightarrow> opt_onload defaults | Some g \<Rightarrow> g)\<rparr>"
| "Convolver_optionsFromArguments defaults (OptionsObject p) =
     defaults\<lparr>opt_url := (case given_url p of None \<Rightarrow> opt_url defaults | Some x \<Rightarrow> Some x),
              opt_onload := (case given_onload p of None \<Rightarrow> opt_onload defaults | Some g \<Rightarrow> g),
              opt_normalize :=
                (case given_normalize p of None \<Rightarrow> opt_normalize defaults | Some v \<Rightarrow> v)\<rparr>"

text \<open>The object: the fields of Effect, the native unit \<^verbatim>\<open>_convolver\<close> (a reference into
  the engine), the owned Resource Buffer \<^verbatim>\<open>_buffer\<close>, and \<^verbatim>\<open>options.onload\<close> as the
  closure of the constructor holds it.\<close>

record 'w Convolver = Effect +
  u_convolver :: node_id
  u_buffer :: ToneAudioBuffer
  onload :: "'w \<Rightarrow> 'w"

text \<open>\<^verbatim>\<open>get buffer()\<close>, lines 84 to 90.\<close>

definition Convolver_buffer :: "'w Convolver \<Rightarrow> ToneAudioBuffer option" where
  "Convolver_buffer c =
     (if ToneAudioBuffer_length (u_buffer c) \<noteq> 0 then Some (u_buffer c) else None)"

text \<open>\<^verbatim>\<open>set buffer(buffer)\<close>, lines 91 to 106. A null argument skips the store; a unit
  that already holds a buffer is replaced by a new one before the assignment.\<close>

definition Convolver_set_buffer :: "ToneAudioBuffer option \<Rightarrow> 'w Convolver \<Rightarrow> 'w Convolver" where
  "Convolver_set_buffer arg c =
     (let c1 = (case arg of
                  Some src \<Rightarrow> c\<lparr>u_buffer := ToneAudioBuffer_set (u_buffer c) src\<rparr>
                | None \<Rightarrow> c);
          c2 = (if buffer (convolvers (node_context c1) (u_convolver c1)) \<noteq> None
                then
                  (let c3 = c1\<lparr>node_context := disconnect (effectSend c1) (node_context c1)\<rparr>;
                       c4 = c3\<lparr>node_context := disconnect (u_convolver c3) (node_context c3)\<rparr>;
                       (fresh, ctx) = createConvolver (node_context c4);
                       c5 = c4\<lparr>node_context := ctx, u_convolver := fresh\<rparr>
                   in connectEffect (u_convolver c5) c5)
                else c1);
          buff = ToneAudioBuffer_get (u_buffer c2);
          ctx2 = node_context c2
      in c2\<lparr>node_context :=
             ctx2\<lparr>convolvers := (convolvers ctx2)
               (u_convolver c2 := (convolvers ctx2 (u_convolver c2))
                  \<lparr>buffer := (case buff of Some d \<Rightarrow> Some d | None \<Rightarrow> None)\<rparr>)\<rparr>\<rparr>)"

text \<open>\<^verbatim>\<open>get normalize()\<close> and \<^verbatim>\<open>set normalize(norm)\<close>, lines 113 to 118: the flag of the
  current unit.\<close>

definition Convolver_normalize :: "'w Convolver \<Rightarrow> bool" where
  "Convolver_normalize c = normalize (convolvers (node_context c) (u_convolver c))"

definition Convolver_set_normalize :: "bool \<Rightarrow> 'w Convolver \<Rightarrow> 'w Convolver" where
  "Convolver_set_normalize value c =
     (let ctx = node_context c
      in c\<lparr>node_context :=
            ctx\<lparr>convolvers := (convolvers ctx)
              (u_convolver c := (convolvers ctx (u_convolver c))\<lparr>normalize := value\<rparr>)\<rparr>\<rparr>)"

text \<open>The constructor, lines 42 to 62: the constructor of Effect, the field initialiser
  of \<^verbatim>\<open>_convolver\<close>, the Resource Buffer, the assignment when the buffer is already
  loaded, the normalization flag, and the wiring of the unit.\<close>

definition Convolver_new :: "'e \<Rightarrow> 'w Convolver_arguments \<Rightarrow> BaseContext \<Rightarrow> 'w Convolver" where
  "Convolver_new effect_defaults arguments ctx =
     (let options = Convolver_optionsFromArguments (Convolver_getDefaults effect_defaults) arguments;
          e = Effect_new ctx;
          (fresh, ctx1) = createConvolver (node_context e);
          c0 = \<lparr>node_context = ctx1, node_input = node_input e, node_output = node_output e,
                u_internalChannels = u_internalChannels e, disposed = disposed e,
                effectSend = effectSend e, effectReturn = effectReturn e,
                u_convolver = fresh, u_buffer = ToneAudioBuffer_new (opt_url options),
                onload = opt_onload options\<rparr>;
          c1 = (if ToneAudioBuffer_loaded (u_buffer c0)
                then Convolver_set_buffer (Some (u_buffer c0)) c0 else c0);
          c2 = Convolver_set_normalize (opt_normalize options) c1
      in connectEffect (u_convolver c2) c2)"

text \<open>The callback the constructor hands to the Resource Buffer, lines 47 to 50: assign the
  buffer, then call \<^verbatim>\<open>options.onload\<close>.\<close>

definition Convolver_onload :: "ToneAudioBuffer \<Rightarrow> 'w Convolver \<times> 'w \<Rightarrow> 'w Convolver \<times> 'w" where
  "Convolver_onload b cw =
     (let c = Convolver_set_buffer (Some b) (fst cw) in (c, onload c (snd cw)))"

text \<open>\<^verbatim>\<open>load(url)\<close>, lines 77 to 79: \<^verbatim>\<open>this.buffer = await this._buffer.load(url)\<close>. A
  rejected promise ends the method before the assignment; a resolved one yields the
  Resource Buffer itself, which is then assigned.\<close>

definition Convolver_load ::
  "(string \<Rightarrow> error + AudioBuffer) \<Rightarrow> string \<Rightarrow> 'w Convolver \<Rightarrow> (error + unit) \<times> 'w Convolver" where
  "Convolver_load loader u c =
     (let (r, b) = ToneAudioBuffer_load loader u (u_buffer c);
          c1 = c\<lparr>u_buffer := b\<rparr>
      in case r of
           Inl e \<Rightarrow> (Inl e, c1)
         | Inr _ \<Rightarrow> (Inr (), Convolver_set_buffer (Some (u_buffer c1)) c1))"

text \<open>\<^verbatim>\<open>dispose()\<close>, lines 120 to 125.\<close>

definition Convolver_dispose :: "'w Convolver \<Rightarrow> error + 'w Convolver" where
  "Convolver_dispose c =
     (let c1 = Effect_dispose c;
          c2 = c1\<lparr>u_buffer := ToneAudioBuffer_dispose (u_buffer c1)\<rparr>;
          c3 = c2\<lparr>node_context := disconnect (u_convolver c2) (node_context c2)\<rparr>
      in Inr c3)"

section \<open>CrossFade\<close>

text \<open>The options of \<^verbatim>\<open>CrossFadeOptions\<close>; the fields inherited from
  \<^verbatim>\<open>ToneAudioNodeOptions\<close> are declared outside the sources and are carried as they
  come.\<close>

record 'e CrossFadeOptions =
  node_options :: 'e
  opt_fade :: real

text \<open>\<^verbatim>\<open>CrossFade.getDefaults\<close>: \<^verbatim>\<open>Object.assign(ToneAudioNode.getDefaults(), {fade:
  0.5})\<close>.\<close>

definition CrossFade_getDefaults :: "'e \<Rightarrow> 'e CrossFadeOptions" where
  "CrossFade_getDefaults node_defaults = \<lparr>node_options = node_defaults, opt_fade = 1 / 2\<rparr>"

text \<open>The arguments of the constructor: none, the shorthand \<^verbatim>\<open>(fade?)\<close>, or an options
  object whose field may be absent.\<close>

datatype CrossFade_arguments = NoFade | FadeValue real | FadeOptions "real option"

text \<open>Modelled from the spec: \<^verbatim>\<open>optionsFromArguments\<close> (section 6), as for the
  Convolver.\<close>

fun CrossFade_optionsFromArguments ::
  "'e CrossFadeOptions \<Rightarrow> CrossFade_arguments \<Rightarrow> 'e CrossFadeOptions" where
  "CrossFade_optionsFromArguments defaults NoFade = defaults"
| "CrossFade_optionsFromArguments defaults (FadeValue v) = defaults\<lparr>opt_fade := v\<rparr>"
| "CrossFade_optionsFromArguments defaults (FadeOptions None) = defaults"
| "CrossFade_optionsFromArguments defaults (FadeOptions (Some v)) = defaults\<lparr>opt_fade := v\<rparr>"

text \<open>Modelled from the spec: a Signal, the Scheduled Parameter of section 3: its node in
  the engine (a constant source whose offset is the value), its current value, and the
  ordered sequence of scheduled automation events (time, target value, curve shape).\<close>

datatype curve = LinearRamp | ExponentialRamp

type_synonym automation = "real \<times> real \<times> curve"

record Signal =
  signal_node :: node_id
  signal_value :: real
  signal_events :: "automation list"

text \<open>Modelled from the spec: \<^verbatim>\<open>new Signal({value})\<close> creates the constant source with
  the value as its offset.\<close>

definition Signal_new :: "real \<Rightarrow> BaseContext \<Rightarrow> Signal \<times> BaseContext" where
  "Signal_new v ctx =
     (let (sig, ctx1) = createNode Source v ctx
      in (\<lparr>signal_node = sig, signal_value = v, signal_events = []\<rparr>, ctx1))"



text \<open>The object. \<^verbatim>\<open>input\<close> is undefined: a CrossFade has the two inputs \<^verbatim>\<open>a\<close> and
  \<^verbatim>\<open>b\<close>.\<close>

record CrossFade = ToneAudioNode +
  u_panner :: node_id
  u_split :: node_id
  u_g2a :: node_id
  a :: node_id
  b :: node_id
  fade :: Signal

text \<open>The field initialisers and the constructor, lines 51 to 122. The panner (pan 0 when
  created) and the splitter are native nodes; \<^verbatim>\<open>a\<close> and \<^verbatim>\<open>b\<close> are gain stages created
  with gain 0, the output is a gain stage with the default gain 1; \<^verbatim>\<open>getConstant(1)\<close> is
  a source of the constant 1.\<close>

definition CrossFade_new :: "'e \<Rightarrow> CrossFade_arguments \<Rightarrow> BaseContext \<Rightarrow> CrossFade" where
  "CrossFade_new node_defaults arguments ctx =
     (let options = CrossFade_optionsFromArguments (CrossFade_getDefaults node_defaults) arguments;
          (panner, ctx1) = createNode Panner 0 ctx;
          (split, ctx2) = createNode Splitter 0 ctx1;
          (g2a, ctx3) = createNode Shaper 0 ctx2;
          (gain_a, ctx4) = createNode Gain 0 ctx3;
          (gain_b, ctx5) = createNode Gain 0 ctx4;
          (outp, ctx6) = createNode Gain 1 ctx5;
          (sig, ctx7) = Signal_new (opt_fade options) ctx6;
          (one, ctx8) = createNode Source 1 ctx7;
          ctx9 = connect one (Input panner) 0 ctx8;
          ctx10 = connect panner (Input split) 0 ctx9;
          ctx11 = connect split (Param gain_a) 0 ctx10;
          ctx12 = connect split (Param gain_b) 1 ctx11;
          ctx13 = connect g2a (Param panner) 0 (connect (signal_node sig) (Input g2a) 0 ctx12);
          ctx14 = connect gain_a (Input outp) 0 ctx13;
          ctx15 = connect gain_b (Input outp) 0 ctx14
      in \<lparr>node_context = ctx15, node_input = None, node_output = Some outp,
          u_internalChannels = [gain_a, gain_b], disposed = False,
          u_panner = panner, u_split = split, u_g2a = g2a, a = gain_a, b = gain_b,
          fade = sig\<rparr>)"

text \<open>\<^verbatim>\<open>dispose()\<close>, lines 130 to 140.\<close>

definition CrossFade_dispose :: "CrossFade \<Rightarrow> error + CrossFade" where
  "CrossFade_dispose x =
     (let x1 = ToneAudioNode_dispose x;
          ctx1 = disposeNode (a x1) (node_context x1);
          ctx2 = disposeNode (b x1) ctx1;
          ctx3 = fold disposeNode (port_nodes (node_output x1)) ctx2;
          ctx4 = disposeNode (signal_node (fade x1)) ctx3;
          ctx5 = disposeNode (u_g2a x1) ctx4;
          ctx6 = disconnect (u_panner x1) ctx5;
          ctx7 = disconnect (u_split x1) ctx6
      in Inr (x1\<lparr>node_context := ctx7\<rparr>))"

text \<open>Modelled from the spec: the derived gains of section 4.5, the gain that drives
  \<^verbatim>\<open>a\<close> and the gain that drives \<^verbatim>\<open>b\<close>. They are the values of the gain parameters of
  the two nodes, as the engine computes them from the connections of the context; no
  value when the engine computes none.\<close>

definition CrossFade_gains :: "nat \<Rightarrow> CrossFade \<Rightarrow> (real \<times> real) option" where
  "CrossFade_gains fuel x =
     (case (param_value fuel (node_context x) (a x), param_value fuel (node_context x) (b x)) of
        (Some gain_a, Some gain_b) \<Rightarrow> Some (gain_a, gain_b)
      | _ \<Rightarrow> None)"

section \<open>AmplitudeEnvelope\<close>


record Envelope = ToneAudioNode +
  attack :: real
  decay :: real
  sustain :: real
  release :: real
  u_sig :: Signal





text \<open>Modelled from the spec: \<^verbatim>\<open>Envelope.dispose\<close>: the disposal of the base and of the
  owned parameter.\<close>

definition Envelope_dispose :: "'a Envelope_scheme \<Rightarrow> 'a Envelope_scheme" where
  "Envelope_dispose e =
     (let e1 = ToneAudioNode_dispose e
      in e1\<lparr>node_context := disposeNode (signal_node (u_sig e1)) (node_context e1)\<rparr>)"

record AmplitudeEnvelope = Envelope +
  u_gainNode :: node_id


text \<open>\<^verbatim>\<open>dispose()\<close>, lines 52 to 56.\<close>

definition AmplitudeEnvelope_dispose :: "AmplitudeEnvelope \<Rightarrow> error + AmplitudeEnvelope" where
  "AmplitudeEnvelope_dispose e =
     (let e1 = Envelope_dispose e
      in Inr (e1\<lparr>node_context := disposeNode (u_gainNode e1) (node_context e1)\<rparr>))"



section \<open>Invariants and example states\<close>

text \<open>A context is well formed when every connection runs between nodes that have been
  created.\<close>

fun dest_node :: "destination \<Rightarrow> node_id" where
  "dest_node (Input n) = n"
| "dest_node (Param n) = n"

definition context_wf :: "BaseContext \<Rightarrow> bool" where
  "context_wf ctx \<longleftrightarrow>
     (\<forall>e \<in> connections ctx. fst e < next_node ctx \<and> dest_node (snd (snd e)) < next_node ctx)"

text \<open>The invariant of the Resource Buffer (section 3: the length is positive exactly when
  the buffer is loaded): data that is present is not empty. The engine has no audio
  buffer of length 0.\<close>

definition ToneAudioBuffer_inv :: "ToneAudioBuffer \<Rightarrow> bool" where
  "ToneAudioBuffer_inv buf \<longleftrightarrow> data buf \<noteq> Some []"

text \<open>The invariant of a Convolver. Routing: the ports, the send stage, the return stage
  and the unit are different nodes that have been created; the send stage feeds the unit
  and nothing else, the unit feeds the return stage and nothing else, and nothing but the
  send stage feeds the unit (the send stage and the unit are not visible outside the
  class). Agreement: the unit holds the data of the Resource Buffer. The constructor
  establishes both, and the two setters and \<^verbatim>\<open>load\<close> keep them.\<close>

definition Convolver_parts :: "'w Convolver \<Rightarrow> node_id list" where
  "Convolver_parts c =
     port_nodes (node_input c) @ port_nodes (node_output c) @
     [effectSend c, effectReturn c, u_convolver c]"

definition Convolver_routed :: "'w Convolver \<Rightarrow> bool" where
  "Convolver_routed c \<longleftrightarrow>
     context_wf (node_context c) \<and>
     distinct (Convolver_parts c) \<and>
     (\<forall>n \<in> set (Convolver_parts c). n < next_node (node_context c)) \<and>
     (effectSend c, 0, Input (u_convolver c)) \<in> connections (node_context c) \<and>
     (u_convolver c, 0, Input (effectReturn c)) \<in> connections (node_context c) \<and>
     (\<forall>e \<in> connections (node_context c).
        fst e = effectSend c \<longrightarrow> e = (effectSend c, 0, Input (u_convolver c))) \<and>
     (\<forall>e \<in> connections (node_context c).
        fst e = u_convolver c \<longrightarrow> e = (u_convolver c, 0, Input (effectReturn c))) \<and>
     (\<forall>e \<in> connections (node_context c).
        dest_node (snd (snd e)) = u_convolver c \<longrightarrow> e = (effectSend c, 0, Input (u_convolver c)))"

definition Convolver_synced :: "'w Convolver \<Rightarrow> bool" where
  "Convolver_synced c \<longleftrightarrow>
     buffer (convolvers (node_context c) (u_convolver c)) = data (u_buffer c)"

definition Convolver_wf :: "'w Convolver \<Rightarrow> bool" where
  "Convolver_wf c \<longleftrightarrow>
     Convolver_routed c \<and> ToneAudioBuffer_inv (u_buffer c) \<and> Convolver_synced c"

text \<open>The Resource Buffer after the first statement of the \<^verbatim>\<open>buffer\<close> setter.\<close>

definition stored :: "ToneAudioBuffer option \<Rightarrow> ToneAudioBuffer \<Rightarrow> ToneAudioBuffer" where
  "stored arg buf = (case arg of Some src \<Rightarrow> ToneAudioBuffer_set buf src | None \<Rightarrow> buf)"

text \<open>A context in which nothing has been created yet, and a Convolver built in it from
  raw data of one sample: its unit holds a buffer from the start.\<close>

definition fresh_context :: BaseContext where
  "fresh_context =
     \<lparr>next_node = 0, connections = {},
      kinds = (\<lambda>n. Source),
      convolvers = (\<lambda>n. \<lparr>buffer = None, normalize = True\<rparr>), params = (\<lambda>n. 0),
      disposed_nodes = {}\<rparr>"

definition example_convolver :: "unit Convolver" where
  "example_convolver = Convolver_new () (Shorthand (Some (Raw [1])) None) fresh_context"



text \<open>Disposal in one step: the connections that leave the nodes of \<open>D\<close> are removed and
  the nodes of \<open>R\<close> are marked disposed. Every disposal below is of this form.\<close>

definition released :: "node_id set \<Rightarrow> node_id set \<Rightarrow> BaseContext \<Rightarrow> BaseContext" where
  "released D R ctx =
     ctx\<lparr>connections := Set.filter (\<lambda>e. fst e \<notin> D) (connections ctx),
         disposed_nodes := disposed_nodes ctx \<union> R\<rparr>"

text \<open>The nodes a processing node owns through its ports and its list of internal
  channels.\<close>

definition owned_nodes :: "'a ToneAudioNode_scheme \<Rightarrow> node_id set" where
  "owned_nodes n =
     set (u_internalChannels n) \<union> set (port_nodes (node_output n)) \<union> set (port_nodes (node_input n))"

section \<open>Properties of the Convolver\<close>

text \<open>
  Claim C5. The \<^verbatim>\<open>buffer\<close> getter returns the backing Resource Buffer exactly when the
  buffer's length is nonzero, and returns absence (a value, never an error) exactly when
  the length is zero.
\<close>

theorem Convolver_buffer_getter:
  "(Convolver_buffer c = Some buf \<longleftrightarrow> buf = u_buffer c \<and> ToneAudioBuffer_length (u_buffer c) \<noteq> 0) \<and>
   (Convolver_buffer c = None \<longleftrightarrow> ToneAudioBuffer_length (u_buffer c) = 0)"
  by (auto simp: Convolver_buffer_def)


subsection \<open>The two paths of the setter\<close>

text \<open>The result of the setter, written out: with a unit that holds a buffer, and with a
  unit that holds none.\<close>

lemma set_buffer_swap:
  assumes "buffer (convolvers (node_context c) (u_convolver c)) \<noteq> None"
  shows "Convolver_set_buffer arg c =
     c\<lparr>node_context := (node_context c)
          \<lparr>next_node := Suc (next_node (node_context c)),
           connections := insert (next_node (node_context c), 0, Input (effectReturn c))
             (insert (effectSend c, 0, Input (next_node (node_context c)))
               (Set.filter (\<lambda>e. fst e \<noteq> u_convolver c)
                 (Set.filter (\<lambda>e. fst e \<noteq> effectSend c) (connections (node_context c))))),
           kinds := (kinds (node_context c))(next_node (node_context c) := Convolution),
           convolvers := (convolvers (node_context c))
             (next_node (node_context c) := \<lparr>buffer = data (stored arg (u_buffer c)), normalize = True\<rparr>)\<rparr>,
        u_internalChannels := u_internalChannels c @ [next_node (node_context c)],
        u_convolver := next_node (node_context c),
        u_buffer := stored arg (u_buffer c)\<rparr>"
  using assms
  by (cases arg)
     (simp_all add: Convolver_set_buffer_def stored_def createConvolver_def connectEffect_def
       connect_def disconnect_def ToneAudioBuffer_get_def Let_def split: option.splits)

lemma set_buffer_keep:
  assumes "buffer (convolvers (node_context c) (u_convolver c)) = None"
  shows "Convolver_set_buffer arg c =
     c\<lparr>node_context := (node_context c)
          \<lparr>convolvers := (convolvers (node_context c))
             (u_convolver c := (convolvers (node_context c) (u_convolver c))
                \<lparr>buffer := data (stored arg (u_buffer c))\<rparr>)\<rparr>,
        u_buffer := stored arg (u_buffer c)\<rparr>"
  using assms
  by (cases arg)
     (simp_all add: Convolver_set_buffer_def stored_def ToneAudioBuffer_get_def Let_def
       split: option.splits)

lemma set_buffer_frame:
  "effectSend (Convolver_set_buffer arg c) = effectSend c"
  "effectReturn (Convolver_set_buffer arg c) = effectReturn c"
  "node_input (Convolver_set_buffer arg c) = node_input c"
  "node_output (Convolver_set_buffer arg c) = node_output c"
  "disposed (Convolver_set_buffer arg c) = disposed c"
  "onload (Convolver_set_buffer arg c) = onload c"
  "u_buffer (Convolver_set_buffer arg c) = stored arg (u_buffer c)"
  "disposed_nodes (node_context (Convolver_set_buffer arg c)) = disposed_nodes (node_context c)"
  by (cases "buffer (convolvers (node_context c) (u_convolver c)) = None";
      simp add: set_buffer_swap set_buffer_keep)+

lemma set_buffer_keep_fields:
  assumes "buffer (convolvers (node_context c) (u_convolver c)) = None"
  shows "u_convolver (Convolver_set_buffer arg c) = u_convolver c"
    and "u_internalChannels (Convolver_set_buffer arg c) = u_internalChannels c"
    and "connections (node_context (Convolver_set_buffer arg c)) = connections (node_context c)"
    and "next_node (node_context (Convolver_set_buffer arg c)) = next_node (node_context c)"
    and "convolvers (node_context (Convolver_set_buffer arg c)) =
           (convolvers (node_context c))
             (u_convolver c := (convolvers (node_context c) (u_convolver c))
                \<lparr>buffer := data (stored arg (u_buffer c))\<rparr>)"
  by (simp_all add: set_buffer_keep [OF assms])

lemma set_buffer_swap_fields:
  assumes "buffer (convolvers (node_context c) (u_convolver c)) \<noteq> None"
  shows "u_convolver (Convolver_set_buffer arg c) = next_node (node_context c)"
    and "u_internalChannels (Convolver_set_buffer arg c) =
           u_internalChannels c @ [next_node (node_context c)]"
    and "connections (node_context (Convolver_set_buffer arg c)) =
           insert (next_node (node_context c), 0, Input (effectReturn c))
             (insert (effectSend c, 0, Input (next_node (node_context c)))
               (Set.filter (\<lambda>e. fst e \<noteq> u_convolver c)
                 (Set.filter (\<lambda>e. fst e \<noteq> effectSend c) (connections (node_context c)))))"
    and "next_node (node_context (Convolver_set_buffer arg c)) = Suc (next_node (node_context c))"
    and "convolvers (node_context (Convolver_set_buffer arg c)) =
           (convolvers (node_context c))
             (next_node (node_context c) :=
                \<lparr>buffer = data (stored arg (u_buffer c)), normalize = True\<rparr>)"
  by (simp_all add: set_buffer_swap [OF assms])

lemma set_buffer_synced: "Convolver_synced (Convolver_set_buffer arg c)"
  by (cases "buffer (convolvers (node_context c) (u_convolver c)) = None")
     (simp_all add: Convolver_synced_def set_buffer_frame set_buffer_keep_fields set_buffer_swap_fields)

lemma set_buffer_parts_keep:
  assumes "buffer (convolvers (node_context c) (u_convolver c)) = None"
  shows "Convolver_parts (Convolver_set_buffer arg c) = Convolver_parts c"
  by (simp add: Convolver_parts_def set_buffer_frame set_buffer_keep_fields [OF assms])

lemma set_buffer_routed:
  assumes r: "Convolver_routed c"
  shows "Convolver_routed (Convolver_set_buffer arg c)"
proof (cases "buffer (convolvers (node_context c) (u_convolver c)) = None")
  case True
  with r show ?thesis
    by (simp add: Convolver_routed_def context_wf_def set_buffer_parts_keep set_buffer_frame
        set_buffer_keep_fields)
next
  case False
  let ?c = "Convolver_set_buffer arg c"
  let ?n = "next_node (node_context c)"
  let ?E = "connections (node_context c)"
  note f = set_buffer_frame set_buffer_swap_fields [OF False]
  from r have cw: "\<forall>e \<in> ?E. fst e < ?n \<and> dest_node (snd (snd e)) < ?n"
    and d: "distinct (Convolver_parts c)"
    and lt: "\<forall>n \<in> set (Convolver_parts c). n < ?n"
    by (simp_all add: Convolver_routed_def context_wf_def)
  from lt have s: "effectSend c < ?n" and t: "effectReturn c < ?n" and u: "u_convolver c < ?n"
    by (simp_all add: Convolver_parts_def)
  have 1: "context_wf (node_context ?c)"
    using cw s t by (auto simp: context_wf_def f less_Suc_eq)
  have 2: "distinct (Convolver_parts ?c)"
    using d lt by (auto simp: Convolver_parts_def f)
  have 3: "\<forall>n \<in> set (Convolver_parts ?c). n < next_node (node_context ?c)"
    using lt by (auto simp: Convolver_parts_def f less_Suc_eq)
  have 4: "(effectSend ?c, 0, Input (u_convolver ?c)) \<in> connections (node_context ?c)"
    by (simp add: f)
  have 5: "(u_convolver ?c, 0, Input (effectReturn ?c)) \<in> connections (node_context ?c)"
    by (simp add: f)
  have 6: "\<forall>e \<in> connections (node_context ?c).
        fst e = effectSend ?c \<longrightarrow> e = (effectSend ?c, 0, Input (u_convolver ?c))"
    using s by (auto simp: f)
  have 7: "\<forall>e \<in> connections (node_context ?c).
        fst e = u_convolver ?c \<longrightarrow> e = (u_convolver ?c, 0, Input (effectReturn ?c))"
    using cw s by (auto simp: f)
  have 8: "\<forall>e \<in> connections (node_context ?c).
        dest_node (snd (snd e)) = u_convolver ?c \<longrightarrow> e = (effectSend ?c, 0, Input (u_convolver ?c))"
    using cw t by (auto simp: f)
  from 1 2 3 4 5 6 7 8 show ?thesis
    unfolding Convolver_routed_def by blast
qed

subsection \<open>The invariant is established and kept\<close>

lemma stored_self: "stored (Some buf) buf = buf"
  by (simp add: stored_def ToneAudioBuffer_set_def)

lemma Convolver_new_eq:
  fixes d :: 'e and args :: "'w Convolver_arguments"
  shows "Convolver_new d args ctx =
     (let options = Convolver_optionsFromArguments (Convolver_getDefaults d) args;
          n = next_node ctx;
          buf = ToneAudioBuffer_new (opt_url options)
      in \<lparr>node_context = ctx
            \<lparr>next_node := Suc (Suc (Suc (Suc (Suc n)))),
             connections :=
               insert (Suc (Suc (Suc (Suc n))), 0, Input (Suc (Suc (Suc n))))
                 (insert (Suc (Suc n), 0, Input (Suc (Suc (Suc (Suc n)))))
                   (insert (Suc (Suc (Suc n)), 0, Input (Suc n))
                     (insert (n, 0, Input (Suc (Suc n))) (connections ctx)))),
             kinds := (kinds ctx)
               (n := Gain, Suc n := Gain, Suc (Suc n) := Gain, Suc (Suc (Suc n)) := Gain,
                Suc (Suc (Suc (Suc n))) := Convolution),
             params := (params ctx)
               (n := 1, Suc n := 1, Suc (Suc n) := 1, Suc (Suc (Suc n)) := 1),
             convolvers := (convolvers ctx)
               (Suc (Suc (Suc (Suc n))) :=
                  \<lparr>buffer = (if ToneAudioBuffer_loaded buf then data buf else None),
                   normalize = opt_normalize options\<rparr>)\<rparr>,
          node_input = Some n, node_output = Some (Suc n),
          u_internalChannels = [Suc (Suc n), Suc (Suc (Suc n)), Suc (Suc (Suc (Suc n)))],
          disposed = False,
          effectSend = Suc (Suc n), effectReturn = Suc (Suc (Suc n)),
          u_convolver = Suc (Suc (Suc (Suc n))), u_buffer = buf,
          onload = opt_onload options\<rparr>)"
proof -
  define options :: "('e, 'w) ToneConvolverOptions" where "options = Convolver_optionsFromArguments (Convolver_getDefaults d) args"
  define buf where "buf = ToneAudioBuffer_new (opt_url options)"
  define e where "e = Effect_new ctx"
  define c0 :: "'w Convolver" where "c0 =
     \<lparr>node_context = snd (createConvolver (node_context e)), node_input = node_input e,
      node_output = node_output e, u_internalChannels = u_internalChannels e,
      disposed = disposed e, effectSend = effectSend e, effectReturn = effectReturn e,
      u_convolver = fst (createConvolver (node_context e)), u_buffer = buf,
      onload = opt_onload options\<rparr>"
  have none: "buffer (convolvers (node_context c0) (u_convolver c0)) = None"
    by (simp add: c0_def createConvolver_def)
  have new: "Convolver_new d args ctx =
      (let c1 = (if ToneAudioBuffer_loaded buf then Convolver_set_buffer (Some buf) c0 else c0);
           c2 = Convolver_set_normalize (opt_normalize options) c1
       in connectEffect (u_convolver c2) c2)"
    by (simp add: Convolver_new_def Let_def c0_def buf_def e_def options_def split: prod.splits)
  have c0: "c0 = \<lparr>node_context = ctx
            \<lparr>next_node := Suc (Suc (Suc (Suc (Suc (next_node ctx))))),
             connections :=
                   (insert (Suc (Suc (Suc (next_node ctx))), 0, Input (Suc (next_node ctx)))
                     (insert (next_node ctx, 0, Input (Suc (Suc (next_node ctx)))) (connections ctx))),
             kinds := (kinds ctx)
               (next_node ctx := Gain, Suc (next_node ctx) := Gain,
                Suc (Suc (next_node ctx)) := Gain, Suc (Suc (Suc (next_node ctx))) := Gain,
                Suc (Suc (Suc (Suc (next_node ctx)))) := Convolution),
             params := (params ctx)
               (next_node ctx := 1, Suc (next_node ctx) := 1, Suc (Suc (next_node ctx)) := 1,
                Suc (Suc (Suc (next_node ctx))) := 1),
             convolvers := (convolvers ctx)
               (Suc (Suc (Suc (Suc (next_node ctx)))) := \<lparr>buffer = None, normalize = True\<rparr>)\<rparr>,
          node_input = Some (next_node ctx), node_output = Some (Suc (next_node ctx)),
          u_internalChannels = [Suc (Suc (next_node ctx)), Suc (Suc (Suc (next_node ctx)))],
          disposed = False,
          effectSend = Suc (Suc (next_node ctx)), effectReturn = Suc (Suc (Suc (next_node ctx))),
          u_convolver = Suc (Suc (Suc (Suc (next_node ctx)))), u_buffer = buf,
          onload = opt_onload options\<rparr>"
    by (simp add: c0_def e_def Effect_new_def createNode_def createConvolver_def connect_def)
  show ?thesis
    unfolding new
    by (simp add: set_buffer_keep [OF none] stored_self Convolver_set_normalize_def
        connectEffect_def connect_def Let_def options_def [symmetric] buf_def [symmetric])
       (simp add: c0 stored_self)
qed

lemma fresh_context_wf: "context_wf fresh_context"
  by (simp add: context_wf_def fresh_context_def)

lemma Convolver_new_routed:
  assumes "context_wf ctx"
  shows "Convolver_routed (Convolver_new d args ctx)"
  using assms
  unfolding Convolver_new_eq Let_def Convolver_routed_def Convolver_parts_def context_wf_def
    port_nodes_def
  by (simp; fastforce)

lemma Convolver_new_synced:
  assumes "ToneAudioBuffer_inv
     (ToneAudioBuffer_new (opt_url (Convolver_optionsFromArguments (Convolver_getDefaults d) args)))"
  shows "Convolver_synced (Convolver_new d args ctx)"
  using assms
  unfolding Convolver_new_eq Let_def Convolver_synced_def ToneAudioBuffer_inv_def
    ToneAudioBuffer_loaded_def ToneAudioBuffer_length_def
  by (auto split: option.splits)

lemma Convolver_new_wf:
  assumes "context_wf ctx"
    and "ToneAudioBuffer_inv
     (ToneAudioBuffer_new (opt_url (Convolver_optionsFromArguments (Convolver_getDefaults d) args)))"
  shows "Convolver_wf (Convolver_new d args ctx)"
proof -
  have "u_buffer (Convolver_new d args ctx) =
      ToneAudioBuffer_new (opt_url (Convolver_optionsFromArguments (Convolver_getDefaults d) args))"
    by (simp add: Convolver_new_eq Let_def)
  with Convolver_new_routed [OF assms(1)] Convolver_new_synced [OF assms(2)] assms(2)
  show ?thesis
    unfolding Convolver_wf_def by simp
qed

lemma Convolver_set_buffer_wf:
  assumes "Convolver_routed c" and "ToneAudioBuffer_inv (stored arg (u_buffer c))"
  shows "Convolver_wf (Convolver_set_buffer arg c)"
  using assms by (simp add: Convolver_wf_def set_buffer_routed set_buffer_synced set_buffer_frame)

lemma Convolver_set_normalize_wf:
  assumes "Convolver_wf c"
  shows "Convolver_wf (Convolver_set_normalize v c)"
  using assms
  by (simp add: Convolver_wf_def Convolver_routed_def Convolver_parts_def Convolver_synced_def
      context_wf_def Convolver_set_normalize_def Let_def)

lemma Convolver_load_eq:
  "Convolver_load loader u c =
     (case loader u of
        Inl e \<Rightarrow> (Inl e, c)
      | Inr d \<Rightarrow>
          (Inr (), Convolver_set_buffer (Some ((u_buffer c)\<lparr>data := Some d\<rparr>))
                     (c\<lparr>u_buffer := (u_buffer c)\<lparr>data := Some d\<rparr>\<rparr>)))"
  by (simp add: Convolver_load_def ToneAudioBuffer_load_def split: sum.splits)

lemma Convolver_load_wf:
  assumes "Convolver_wf c" and "\<forall>d. loader u = Inr d \<longrightarrow> d \<noteq> []"
  shows "Convolver_wf (snd (Convolver_load loader u c))"
proof (cases "loader u")
  case (Inl e)
  with assms show ?thesis by (simp add: Convolver_load_eq)
next
  case (Inr d)
  from assms(1) have "Convolver_routed (c\<lparr>u_buffer := (u_buffer c)\<lparr>data := Some d\<rparr>\<rparr>)"
    by (simp add: Convolver_wf_def Convolver_routed_def Convolver_parts_def)
  moreover from assms(2) Inr have "d \<noteq> []" by simp
  ultimately show ?thesis
    using Inr
    by (simp add: Convolver_load_eq Convolver_set_buffer_wf stored_def ToneAudioBuffer_set_def
        ToneAudioBuffer_inv_def)
qed

lemma example_convolver_wf: "Convolver_wf example_convolver"
  unfolding example_convolver_def
  by (rule Convolver_new_wf) (simp_all add: fresh_context_wf ToneAudioBuffer_inv_def Convolver_getDefaults_def)


lemma small_numerals:
  "Suc (Suc 0) = 2" "Suc (Suc (Suc 0)) = 3" "Suc (Suc (Suc (Suc 0))) = 4"
  "Suc (Suc (Suc (Suc (Suc 0)))) = 5"
  by simp_all

lemma example_convolver_fields:
  "u_convolver example_convolver = 4"
  "effectSend example_convolver = 2"
  "effectReturn example_convolver = 3"
  "node_input example_convolver = Some 0"
  "node_output example_convolver = Some 1"
  "next_node (node_context example_convolver) = 5"
  "connections (node_context example_convolver) =
     {(4, 0, Input 3), (2, 0, Input 4), (3, 0, Input 1), (0, 0, Input 2)}"
  "convolvers (node_context example_convolver) 4 = \<lparr>buffer = Some [1], normalize = True\<rparr>"
  "u_buffer example_convolver = \<lparr>data = Some [1]\<rparr>"
  "u_internalChannels example_convolver = [2, 3, 4]"
  by (simp_all add: example_convolver_def Convolver_new_eq Let_def fresh_context_def
      Convolver_getDefaults_def ToneAudioBuffer_loaded_def ToneAudioBuffer_length_def
      small_numerals)

subsection \<open>Replacing the unit\<close>



lemma routed_unit_allocated:
  assumes "Convolver_routed c"
  shows "u_convolver c < next_node (node_context c)"
  using assms by (simp add: Convolver_routed_def Convolver_parts_def)











text \<open>
  Claim C10. Assigning null through the \<^verbatim>\<open>buffer\<close> setter leaves the Resource Buffer, its
  data and its length unchanged. If the unit held a buffer, the setter still moves to a
  new unit and assigns the unchanged data of the Resource Buffer to it. For a well-formed
  Convolver (the unit holds what the Resource Buffer holds, which the constructor, the
  setters and \<^verbatim>\<open>load\<close> maintain) the buffer of the current unit is therefore the same
  before and after, and the old unit is left as it was.
\<close>

theorem Convolver_set_buffer_null:
  "(let c' = Convolver_set_buffer None c;
        ctx = node_context c; ctx' = node_context c';
        old = u_convolver c; new = u_convolver c'
    in u_buffer c' = u_buffer c \<and>
       ToneAudioBuffer_length (u_buffer c') = ToneAudioBuffer_length (u_buffer c) \<and>
       buffer (convolvers ctx' new) = ToneAudioBuffer_get (u_buffer c) \<and>
       (if buffer (convolvers ctx old) \<noteq> None
        then new = next_node ctx \<and>
             convolvers ctx' new = \<lparr>buffer = ToneAudioBuffer_get (u_buffer c), normalize = True\<rparr>
        else new = old) \<and>
       (Convolver_wf c \<longrightarrow>
          buffer (convolvers ctx' new) = buffer (convolvers ctx old) \<and>
          (buffer (convolvers ctx old) \<noteq> None \<longrightarrow>
             new \<noteq> old \<and> convolvers ctx' old = convolvers ctx old)))"
proof -
  let ?c = "Convolver_set_buffer None c"
  have st: "stored None (u_buffer c) = u_buffer c"
    by (simp add: stored_def)
  have 1: "u_buffer ?c = u_buffer c"
    by (simp add: set_buffer_frame st)
  have 2: "buffer (convolvers (node_context ?c) (u_convolver ?c)) = ToneAudioBuffer_get (u_buffer c)"
    using set_buffer_synced [of None c] by (simp add: Convolver_synced_def 1 ToneAudioBuffer_get_def)
  have 3: "if buffer (convolvers (node_context c) (u_convolver c)) \<noteq> None
        then u_convolver ?c = next_node (node_context c) \<and>
             convolvers (node_context ?c) (u_convolver ?c) =
               \<lparr>buffer = ToneAudioBuffer_get (u_buffer c), normalize = True\<rparr>
        else u_convolver ?c = u_convolver c"
    by (simp add: set_buffer_swap_fields set_buffer_keep_fields st ToneAudioBuffer_get_def)
  have 4: "buffer (convolvers (node_context ?c) (u_convolver ?c)) =
      buffer (convolvers (node_context c) (u_convolver c))" if "Convolver_wf c"
    using that 2 by (simp add: Convolver_wf_def Convolver_synced_def ToneAudioBuffer_get_def)
  have 5: "u_convolver ?c \<noteq> u_convolver c \<and>
      convolvers (node_context ?c) (u_convolver c) = convolvers (node_context c) (u_convolver c)"
    if "Convolver_wf c" and h: "buffer (convolvers (node_context c) (u_convolver c)) \<noteq> None"
    using routed_unit_allocated [of c] that
    by (simp add: Convolver_wf_def set_buffer_swap_fields [OF h])
  from 1 2 3 4 5 show ?thesis
    unfolding Let_def by metis
qed

text \<open>The theorem at the example Convolver.\<close>

theorem Convolver_set_buffer_null_witness:
  "Convolver_wf example_convolver \<and>
   buffer (convolvers (node_context example_convolver) (u_convolver example_convolver)) = Some [1] \<and>
   (let c' = Convolver_set_buffer None example_convolver
    in u_buffer c' = \<lparr>data = Some [1]\<rparr> \<and>
       u_convolver c' = 5 \<and>
       convolvers (node_context c') 5 = \<lparr>buffer = Some [1], normalize = True\<rparr> \<and>
       convolvers (node_context c') 4 = \<lparr>buffer = Some [1], normalize = True\<rparr>)"
  using Convolver_set_buffer_null [of example_convolver] example_convolver_wf
  unfolding Let_def example_convolver_fields ToneAudioBuffer_get_def
  by auto

text \<open>
  Claim C4. When the external loader rejects, \<^verbatim>\<open>load\<close> hands the same error to its caller
  and the effect is exactly as before: the Resource Buffer, the unit and the connections
  (the setter is not reached).
\<close>

theorem Convolver_load_failure:
  assumes "loader u = Inl e"
  shows "Convolver_load loader u c = (Inl e, c)"
  using assms by (simp add: Convolver_load_def ToneAudioBuffer_load_def)

text \<open>The theorem at the example Convolver and a loader that fails to fetch.\<close>

theorem Convolver_load_failure_witness:
  "(\<lambda>u. Inl FetchError :: error + AudioBuffer) ''ir.wav'' = Inl FetchError \<and>
   Convolver_load (\<lambda>u. Inl FetchError) ''ir.wav'' example_convolver =
     (Inl FetchError, example_convolver) \<and>
   Convolver_buffer example_convolver = Some \<lparr>data = Some [1]\<rparr>"
  using Convolver_load_failure [of "\<lambda>u. Inl FetchError" "''ir.wav''" FetchError example_convolver]
  by (simp add: Convolver_buffer_def example_convolver_fields ToneAudioBuffer_length_def)

subsection \<open>Reading back what was assigned\<close>

text \<open>The buffer reads back with its length, and an empty buffer reads back as absent.
  The normalization flag reads back as long as the unit is not replaced; a replaced unit
  starts with the flag of a new unit.\<close>

lemma Convolver_buffer_roundtrip:
  assumes "0 < ToneAudioBuffer_length buf"
  shows "\<exists>buf'. Convolver_buffer (Convolver_set_buffer (Some buf) c) = Some buf' \<and>
           ToneAudioBuffer_length buf' = ToneAudioBuffer_length buf"
  using assms
  by (simp add: Convolver_buffer_def set_buffer_frame stored_def ToneAudioBuffer_set_def
      ToneAudioBuffer_length_def)

lemma Convolver_buffer_empty:
  assumes "ToneAudioBuffer_length buf = 0"
  shows "Convolver_buffer (Convolver_set_buffer (Some buf) c) = None"
  using assms
  by (simp add: Convolver_buffer_def set_buffer_frame stored_def ToneAudioBuffer_set_def
      ToneAudioBuffer_length_def)

lemma Convolver_normalize_roundtrip:
  "Convolver_normalize (Convolver_set_normalize v c) = v"
  by (simp add: Convolver_normalize_def Convolver_set_normalize_def Let_def)

lemma Convolver_normalize_kept:
  assumes "buffer (convolvers (node_context c) (u_convolver c)) = None"
  shows "Convolver_normalize (Convolver_set_buffer arg c) = Convolver_normalize c"
  by (simp add: Convolver_normalize_def set_buffer_keep_fields [OF assms])

lemma Convolver_normalize_reset:
  assumes "buffer (convolvers (node_context c) (u_convolver c)) \<noteq> None"
  shows "Convolver_normalize (Convolver_set_buffer arg c) = True"
  by (simp add: Convolver_normalize_def set_buffer_swap_fields [OF assms])

text \<open>
  Claim C1, evaluated. On the example Convolver, whose unit holds a buffer, set
  \<^verbatim>\<open>normalize\<close> to false and assign a buffer of length 2. The getter returns the buffer of
  length 2, but \<^verbatim>\<open>normalize\<close> now reads true: the replacement unit was not given the
  flag of the unit it replaced.
\<close>

theorem Convolver_normalize_lost_on_swap:
  "(let c1 = Convolver_set_normalize False example_convolver;
        c2 = Convolver_set_buffer (Some \<lparr>data = Some [2, 3]\<rparr>) c1
    in Convolver_normalize c1 = False \<and>
       Convolver_buffer c2 = Some \<lparr>data = Some [2, 3]\<rparr> \<and>
       Convolver_normalize c2 = True)"
proof -
  let ?c1 = "Convolver_set_normalize False example_convolver"
  have h: "buffer (convolvers (node_context ?c1) (u_convolver ?c1)) \<noteq> None"
    by (simp add: Convolver_set_normalize_def Let_def example_convolver_fields)
  have buf: "u_buffer ?c1 = \<lparr>data = Some [1]\<rparr>"
    by (simp add: Convolver_set_normalize_def Let_def example_convolver_fields)
  show ?thesis
    unfolding Let_def
    by (simp add: Convolver_normalize_roundtrip Convolver_normalize_reset [OF h]
        Convolver_buffer_def set_buffer_frame buf stored_def ToneAudioBuffer_set_def
        ToneAudioBuffer_length_def)
qed


section \<open>Properties of the CrossFade\<close>

text \<open>The engine's evaluation of the control signals, one node at a time.\<close>

lemma mixed_empty: "mixed f {} = Some (0, 0)"
  by (simp add: mixed_def)

lemma mixed_single: "mixed f {e} = f e"
  by (cases "f e") (simp_all add: mixed_def)

lemma filter_insert_if:
  "Set.filter P (insert e E) = (if P e then insert e (Set.filter P E) else Set.filter P E)"
  by auto

lemma no_incoming:
  assumes "context_wf ctx" and "next_node ctx \<le> dest_node t"
  shows "Set.filter (\<lambda>e. snd (snd e) = t) (connections ctx) = {}"
proof -
  have "snd (snd e) \<noteq> t" if "e \<in> connections ctx" for e
  proof
    assume "snd (snd e) = t"
    with assms(1) that have "dest_node t < next_node ctx"
      by (auto simp: context_wf_def)
    with assms(2) show False by simp
  qed
  then show ?thesis by auto
qed

lemma CrossFade_new_nodes:
  "u_panner (CrossFade_new d args ctx) = next_node ctx"
  "u_split (CrossFade_new d args ctx) = Suc (next_node ctx)"
  "u_g2a (CrossFade_new d args ctx) = Suc (Suc (next_node ctx))"
  "a (CrossFade_new d args ctx) = Suc (Suc (Suc (next_node ctx)))"
  "b (CrossFade_new d args ctx) = Suc (Suc (Suc (Suc (next_node ctx))))"
  "node_output (CrossFade_new d args ctx) = Some (Suc (Suc (Suc (Suc (Suc (next_node ctx))))))"
  "signal_node (fade (CrossFade_new d args ctx)) = Suc (Suc (Suc (Suc (Suc (Suc (next_node ctx))))))"
  by (simp_all add: CrossFade_new_def Signal_new_def createNode_def connect_def Let_def)

lemma CrossFade_new_context:
  "node_context (CrossFade_new d args ctx) =
     (let n = next_node ctx;
          f = opt_fade (CrossFade_optionsFromArguments (CrossFade_getDefaults d) args)
      in ctx\<lparr>next_node := Suc (Suc (Suc (Suc (Suc (Suc (Suc (Suc n))))))),
             connections :=
               insert (Suc (Suc (Suc (Suc n))), 0, Input (Suc (Suc (Suc (Suc (Suc n))))))
                (insert (Suc (Suc (Suc n)), 0, Input (Suc (Suc (Suc (Suc (Suc n))))))
                  (insert (Suc (Suc n), 0, Param n)
                    (insert (Suc (Suc (Suc (Suc (Suc (Suc n))))), 0, Input (Suc (Suc n)))
                      (insert (Suc n, 1, Param (Suc (Suc (Suc (Suc n)))))
                        (insert (Suc n, 0, Param (Suc (Suc (Suc n))))
                          (insert (n, 0, Input (Suc n))
                            (insert (Suc (Suc (Suc (Suc (Suc (Suc (Suc n)))))), 0, Input n)
                              (connections ctx)))))))),
             kinds := (kinds ctx)
               (n := Panner, Suc n := Splitter, Suc (Suc n) := Shaper,
                Suc (Suc (Suc n)) := Gain, Suc (Suc (Suc (Suc n))) := Gain,
                Suc (Suc (Suc (Suc (Suc n)))) := Gain,
                Suc (Suc (Suc (Suc (Suc (Suc n))))) := Source,
                Suc (Suc (Suc (Suc (Suc (Suc (Suc n)))))) := Source),
             params := (params ctx)
               (n := 0, Suc n := 0, Suc (Suc n) := 0,
                Suc (Suc (Suc n)) := 0, Suc (Suc (Suc (Suc n))) := 0,
                Suc (Suc (Suc (Suc (Suc n)))) := 1,
                Suc (Suc (Suc (Suc (Suc (Suc n))))) := f,
                Suc (Suc (Suc (Suc (Suc (Suc (Suc n)))))) := 1)\<rparr>)"
  by (simp add: CrossFade_new_def Signal_new_def createNode_def connect_def Let_def)

lemma StereoPanner_normal_range:
  assumes "0 \<le> f" and "f \<le> 1"
  shows "StereoPanner (GainToAudio f) 1 = (cos (f * pi / 2), sin (f * pi / 2))"
proof -
  from assms have "max (- 1) (min 1 (f * 2 - 1)) = f * 2 - 1"
    by simp
  then show ?thesis
    by (simp add: StereoPanner_def GainToAudio_def Let_def)
qed

lemma signal_out_Source:
  assumes "kinds ctx n = Source"
  shows "signal_out (Suc fuel) ctx n k = Some (params ctx n, params ctx n)"
  using assms by (simp add: Let_def)

lemma signal_out_Shaper:
  assumes "kinds ctx n = Shaper"
    and "Set.filter (\<lambda>e. snd (snd e) = Input n) (connections ctx) = {(m, j, Input n)}"
    and "signal_out fuel ctx m j = Some (v, w)"
  shows "signal_out (Suc fuel) ctx n k = Some (GainToAudio v, GainToAudio w)"
  using assms(1,3) unfolding signal_out.simps Let_def assms(2) mixed_single
  by simp

lemma signal_out_Panner:
  assumes "kinds ctx n = Panner"
    and "Set.filter (\<lambda>e. snd (snd e) = Input n) (connections ctx) = {(m, j, Input n)}"
    and "Set.filter (\<lambda>e. snd (snd e) = Param n) (connections ctx) = {(m', j', Param n)}"
    and "signal_out fuel ctx m j = Some s"
    and "signal_out fuel ctx m' j' = Some p"
  shows "signal_out (Suc fuel) ctx n k = Some (StereoPanner (params ctx n + mono p) (mono s))"
  using assms(1,4,5) unfolding signal_out.simps Let_def assms(2,3) mixed_single
  by simp

lemma signal_out_Splitter:
  assumes "kinds ctx n = Splitter"
    and "Set.filter (\<lambda>e. snd (snd e) = Input n) (connections ctx) = {(m, j, Input n)}"
    and "signal_out fuel ctx m j = Some s"
  shows "signal_out (Suc fuel) ctx n k =
     Some (if k = 0 then (fst s, fst s) else if k = 1 then (snd s, snd s) else (0, 0))"
  using assms(1,3) unfolding signal_out.simps Let_def assms(2) mixed_single
  by simp

lemma param_value_single:
  assumes "Set.filter (\<lambda>e. snd (snd e) = Param n) (connections ctx) = {(m, j, Param n)}"
    and "signal_out fuel ctx m j = Some p"
  shows "param_value fuel ctx n = Some (params ctx n + mono p)"
  using assms(2) unfolding param_value_def assms(1) mixed_single
  by simp

lemma crossfade_graph_gains:
  assumes kinds: "kinds G p = Panner" "kinds G s = Splitter" "kinds G h = Shaper"
      "kinds G sg = Source" "kinds G one = Source"
    and params: "params G p = 0" "params G ga = 0" "params G gb = 0" "params G sg = f"
      "params G one = 1"
    and inc: "Set.filter (\<lambda>e. snd (snd e) = Input p) (connections G) = {(one, 0, Input p)}"
      "Set.filter (\<lambda>e. snd (snd e) = Param p) (connections G) = {(h, 0, Param p)}"
      "Set.filter (\<lambda>e. snd (snd e) = Input s) (connections G) = {(p, 0, Input s)}"
      "Set.filter (\<lambda>e. snd (snd e) = Input h) (connections G) = {(sg, 0, Input h)}"
      "Set.filter (\<lambda>e. snd (snd e) = Param ga) (connections G) = {(s, 0, Param ga)}"
      "Set.filter (\<lambda>e. snd (snd e) = Param gb) (connections G) = {(s, 1, Param gb)}"
  shows "param_value (Suc (Suc (Suc (Suc k)))) G ga = Some (fst (StereoPanner (GainToAudio f) 1))"
    and "param_value (Suc (Suc (Suc (Suc k)))) G gb = Some (snd (StereoPanner (GainToAudio f) 1))"
proof -
  have one: "signal_out (Suc (Suc k)) G one 0 = Some (1, 1)"
    by (simp only: signal_out_Source [OF kinds(5)] params)
  have sg: "signal_out (Suc k) G sg 0 = Some (f, f)"
    by (simp only: signal_out_Source [OF kinds(4)] params)
  have h: "signal_out (Suc (Suc k)) G h 0 = Some (GainToAudio f, GainToAudio f)"
    by (rule signal_out_Shaper [OF kinds(3) inc(4) sg])
  have p: "signal_out (Suc (Suc (Suc k))) G p 0 = Some (StereoPanner (GainToAudio f) 1)"
    using signal_out_Panner [OF kinds(1) inc(1) inc(2) one h, of 0]
    by (simp add: params mono_def)
  have s0: "signal_out (Suc (Suc (Suc (Suc k)))) G s 0 =
      Some (fst (StereoPanner (GainToAudio f) 1), fst (StereoPanner (GainToAudio f) 1))"
    using signal_out_Splitter [OF kinds(2) inc(3) p, of 0] by simp
  have s1: "signal_out (Suc (Suc (Suc (Suc k)))) G s 1 =
      Some (snd (StereoPanner (GainToAudio f) 1), snd (StereoPanner (GainToAudio f) 1))"
    using signal_out_Splitter [OF kinds(2) inc(3) p, of 1] by simp
  show "param_value (Suc (Suc (Suc (Suc k)))) G ga = Some (fst (StereoPanner (GainToAudio f) 1))"
    using param_value_single [OF inc(5) s0] by (simp add: params mono_def)
  show "param_value (Suc (Suc (Suc (Suc k)))) G gb = Some (snd (StereoPanner (GainToAudio f) 1))"
    using param_value_single [OF inc(6) s1] by (simp add: params mono_def)
qed

text \<open>The gains come from the connections: without them both gain parameters keep the
  value 0 they were created with.\<close>

lemma CrossFade_gains_unconnected:
  "CrossFade_gains fuel
     ((CrossFade_new d args ctx)
        \<lparr>node_context := (node_context (CrossFade_new d args ctx))\<lparr>connections := {}\<rparr>\<rparr>) =
   Some (0, 0)"
  by (simp add: CrossFade_gains_def param_value_def mixed_empty CrossFade_new_context
      CrossFade_new_nodes mono_def Let_def)

text \<open>The gains of a constructed CrossFade.\<close>

lemma CrossFade_new_gains:
  assumes wf: "context_wf ctx" and fuel: "4 \<le> fuel"
  shows "CrossFade_gains fuel (CrossFade_new d args ctx) =
     Some (StereoPanner (GainToAudio
       (opt_fade (CrossFade_optionsFromArguments (CrossFade_getDefaults d) args))) 1)"
proof -
  let ?x = "CrossFade_new d args ctx"
  let ?G = "node_context ?x"
  let ?n = "next_node ctx"
  let ?f = "opt_fade (CrossFade_optionsFromArguments (CrossFade_getDefaults d) args)"
  define k where "k = fuel - 4"
  from fuel have k: "fuel = Suc (Suc (Suc (Suc k)))"
    unfolding k_def by linarith
  note ctx = CrossFade_new_context [of d args ctx, unfolded Let_def]
  have kinds: "kinds ?G ?n = Panner" "kinds ?G (Suc ?n) = Splitter" "kinds ?G (Suc (Suc ?n)) = Shaper"
    "kinds ?G (Suc (Suc (Suc (Suc (Suc (Suc ?n)))))) = Source"
    "kinds ?G (Suc (Suc (Suc (Suc (Suc (Suc (Suc ?n))))))) = Source"
    by (simp_all add: ctx)
  have params: "params ?G ?n = 0" "params ?G (Suc (Suc (Suc ?n))) = 0"
    "params ?G (Suc (Suc (Suc (Suc ?n)))) = 0"
    "params ?G (Suc (Suc (Suc (Suc (Suc (Suc ?n)))))) = ?f"
    "params ?G (Suc (Suc (Suc (Suc (Suc (Suc (Suc ?n))))))) = 1"
    by (simp_all add: ctx)
  note old = no_incoming [OF wf]
  have inc:
    "Set.filter (\<lambda>e. snd (snd e) = Input ?n) (connections ?G) =
       {(Suc (Suc (Suc (Suc (Suc (Suc (Suc ?n)))))), 0, Input ?n)}"
    "Set.filter (\<lambda>e. snd (snd e) = Param ?n) (connections ?G) = {(Suc (Suc ?n), 0, Param ?n)}"
    "Set.filter (\<lambda>e. snd (snd e) = Input (Suc ?n)) (connections ?G) = {(?n, 0, Input (Suc ?n))}"
    "Set.filter (\<lambda>e. snd (snd e) = Input (Suc (Suc ?n))) (connections ?G) =
       {(Suc (Suc (Suc (Suc (Suc (Suc ?n))))), 0, Input (Suc (Suc ?n)))}"
    "Set.filter (\<lambda>e. snd (snd e) = Param (Suc (Suc (Suc ?n)))) (connections ?G) =
       {(Suc ?n, 0, Param (Suc (Suc (Suc ?n))))}"
    "Set.filter (\<lambda>e. snd (snd e) = Param (Suc (Suc (Suc (Suc ?n))))) (connections ?G) =
       {(Suc ?n, 1, Param (Suc (Suc (Suc (Suc ?n)))))}"
    by (simp_all add: ctx filter_insert_if old del: Set.filter_eq)
  note g = crossfade_graph_gains [OF kinds params inc, of k]
  have "param_value fuel ?G (a ?x) = Some (fst (StereoPanner (GainToAudio ?f) 1))"
    unfolding CrossFade_new_nodes k by (rule g(1))
  moreover have "param_value fuel ?G (b ?x) = Some (snd (StereoPanner (GainToAudio ?f) 1))"
    unfolding CrossFade_new_nodes k by (rule g(2))
  ultimately show ?thesis
    unfolding CrossFade_gains_def by simp
qed

text \<open>
  Claim C6. For every fade value in [0,1] given to the constructor, the gain that drives
  input \<^verbatim>\<open>a\<close> and the gain that drives input \<^verbatim>\<open>b\<close> satisfy the equal-power law: their
  squares add up to the constant 1. At fade 0 the gains are 1 and 0, at fade 1 they are
  0 and 1, and at fade 1/2 they are equal. The gains are the values of the gain
  parameters of \<^verbatim>\<open>a\<close> and \<^verbatim>\<open>b\<close>, computed from the connections that the constructor has
  made in a well-formed context, over the real numbers; four steps along the connections
  suffice to compute them.
\<close>

theorem CrossFade_equal_power:
  assumes "context_wf ctx" and "4 \<le> fuel" and "0 \<le> f" and "f \<le> 1"
  shows "(let gains = (\<lambda>v. CrossFade_gains fuel (CrossFade_new d (FadeValue v) ctx))
          in (case gains f of Some (gain_a, gain_b) \<Rightarrow> gain_a\<^sup>2 + gain_b\<^sup>2 = 1 | None \<Rightarrow> False) \<and>
             gains 0 = Some (1, 0) \<and>
             gains 1 = Some (0, 1) \<and>
             (case gains (1 / 2) of Some (gain_a, gain_b) \<Rightarrow> gain_a = gain_b | None \<Rightarrow> False))"
proof -
  have "(1 / 2 :: real) * pi / 2 = pi / 4"
    by simp
  then show ?thesis
    unfolding Let_def CrossFade_new_gains [OF assms(1,2)]
    by (simp add: StereoPanner_normal_range [OF assms(3,4)] StereoPanner_normal_range
        cos_45 sin_45)
qed

text \<open>The theorem at the fade values 1/4, 0 and 1 given to the constructor in the
  empty context.\<close>

theorem CrossFade_equal_power_witness:
  "context_wf fresh_context \<and> (4 :: nat) \<le> 4 \<and> (0 :: real) \<le> 1 / 4 \<and> (1 / 4 :: real) \<le> 1 \<and>
   (case CrossFade_gains 4 (CrossFade_new () (FadeValue (1 / 4)) fresh_context) of
      Some (gain_a, gain_b) \<Rightarrow> gain_a\<^sup>2 + gain_b\<^sup>2 = 1
    | None \<Rightarrow> False) \<and>
   CrossFade_gains 4 (CrossFade_new () (FadeValue 0) fresh_context) = Some (1, 0) \<and>
   CrossFade_gains 4 (CrossFade_new () (FadeValue 1) fresh_context) = Some (0, 1)"
proof -
  have h: "(0 :: real) \<le> 1 / 4" "(1 / 4 :: real) \<le> 1"
    by simp_all
  note t = CrossFade_equal_power [OF fresh_context_wf order_refl h, of "()", unfolded Let_def]
  from t have 1: "case CrossFade_gains 4 (CrossFade_new () (FadeValue (1 / 4)) fresh_context) of
      Some (gain_a, gain_b) \<Rightarrow> gain_a\<^sup>2 + gain_b\<^sup>2 = 1
    | None \<Rightarrow> False"
    by (rule conjunct1)
  from t have 2: "CrossFade_gains 4 (CrossFade_new () (FadeValue 0) fresh_context) = Some (1, 0)"
    by (elim conjE)
  from t have 3: "CrossFade_gains 4 (CrossFade_new () (FadeValue 1) fresh_context) = Some (0, 1)"
    by (elim conjE)
  show ?thesis
    by (intro conjI fresh_context_wf order_refl h 1 2 3)
qed

section \<open>Defaults\<close>

lemma CrossFade_new_fields:
  "signal_value (fade (CrossFade_new d args ctx)) =
     opt_fade (CrossFade_optionsFromArguments (CrossFade_getDefaults d) args)"
  by (simp add: CrossFade_new_def Signal_new_def createNode_def connect_def Let_def)

text \<open>
  Claim C8. A CrossFade constructed without a fade argument has a fade signal of initial
  value 0.5; a Convolver constructed without options has the normalization flag set and
  its \<^verbatim>\<open>onload\<close> callback is \<^verbatim>\<open>noOp\<close>, which does nothing.
\<close>

theorem constructor_defaults:
  "opt_fade (CrossFade_getDefaults d) = 1 / 2 \<and>
   signal_value (fade (CrossFade_new d NoFade ctx)) = 1 / 2 \<and>
   signal_value (fade (CrossFade_new d (FadeOptions None) ctx)) = 1 / 2 \<and>
   opt_normalize (Convolver_getDefaults d') = True \<and>
   opt_onload (Convolver_getDefaults d') = noOp \<and>
   Convolver_normalize (Convolver_new d' NoArguments ctx') = True \<and>
   onload (Convolver_new d' NoArguments ctx') = noOp \<and>
   noOp w = w"
  by (simp add: CrossFade_new_fields CrossFade_getDefaults_def Convolver_getDefaults_def
      Convolver_normalize_def Convolver_new_eq Let_def noOp_def)

section \<open>Disposal\<close>

lemma released_empty: "released {} {} ctx = ctx"
  by (simp add: released_def)

lemma released_released:
  "released D R (released D' R' ctx) = released (D \<union> D') (R \<union> R') ctx"
proof -
  have "{e \<in> connections ctx. fst e \<notin> D' \<and> fst e \<notin> D} =
        {e \<in> connections ctx. fst e \<notin> D \<and> fst e \<notin> D'}"
    by blast
  then show ?thesis
    by (simp add: released_def Un_commute Un_left_commute Un_assoc)
qed

lemma released_absorb:
  assumes "D' \<subseteq> D" and "R' \<subseteq> R"
  shows "released D' R' (released D R ctx) = released D R ctx"
proof -
  from assms have "D' \<union> D = D" "R' \<union> R = R" by blast+
  then show ?thesis by (simp add: released_released)
qed

lemma disconnect_released: "disconnect n ctx = released {n} {} ctx"
  by (simp add: disconnect_def released_def)

lemma disposeNode_released: "disposeNode n ctx = released {n} {n} ctx"
  by (simp add: disposeNode_def disconnect_def released_def)

lemma released_cong:
  assumes "D = D'" and "R = R'"
  shows "released D R ctx = released D' R' ctx"
  using assms by simp

lemma fold_disposeNode_released:
  "fold disposeNode ns ctx = released (set ns) (set ns) ctx"
proof (induction ns arbitrary: ctx)
  case Nil
  show ?case by (simp add: released_empty)
next
  case (Cons n ns)
  have "fold disposeNode (n # ns) ctx = fold disposeNode ns (disposeNode n ctx)"
    by simp
  also have "\<dots> = released (set ns) (set ns) (released {n} {n} ctx)"
    by (simp only: Cons.IH disposeNode_released)
  also have "\<dots> = released (set ns \<union> {n}) (set ns \<union> {n}) ctx"
    by (rule released_released)
  also have "\<dots> = released (set (n # ns)) (set (n # ns)) ctx"
    by (rule released_cong) simp_all
  finally show ?case .
qed

lemma ToneAudioNode_dispose_eq:
  "ToneAudioNode_dispose n =
     n\<lparr>node_context := released (owned_nodes n) (owned_nodes n) (node_context n),
       u_internalChannels := [], disposed := True\<rparr>"
proof -
  have "fold disposeNode
           (rev (u_internalChannels n) @ port_nodes (node_output n) @ port_nodes (node_input n))
           (node_context n) = released (owned_nodes n) (owned_nodes n) (node_context n)"
    unfolding fold_disposeNode_released
    by (rule released_cong) (auto simp: owned_nodes_def)
  then show ?thesis
    by (simp only: ToneAudioNode_dispose_def)
qed

lemma Convolver_dispose_eq:
  "Convolver_dispose c =
     Inr (c\<lparr>node_context :=
              released (owned_nodes c \<union> {effectSend c, effectReturn c, u_convolver c})
                (owned_nodes c \<union> {effectSend c, effectReturn c}) (node_context c),
            u_internalChannels := [], disposed := True,
            u_buffer := ToneAudioBuffer_dispose (u_buffer c)\<rparr>)"
proof -
  let ?raw = "disconnect (u_convolver c)
      (disposeNode (effectReturn c) (disposeNode (effectSend c)
         (released (owned_nodes c) (owned_nodes c) (node_context c))))"
  have 1: "Convolver_dispose c =
     Inr (c\<lparr>node_context := ?raw, u_internalChannels := [], disposed := True,
            u_buffer := ToneAudioBuffer_dispose (u_buffer c)\<rparr>)"
    by (simp add: Convolver_dispose_def Effect_dispose_def Let_def ToneAudioNode_dispose_eq)
  have 2: "?raw = released (owned_nodes c \<union> {effectSend c, effectReturn c, u_convolver c})
                (owned_nodes c \<union> {effectSend c, effectReturn c}) (node_context c)"
    unfolding disconnect_released disposeNode_released released_released
    by (rule released_cong) auto
  show ?thesis
    unfolding 1 2 ..
qed

lemma Convolver_dispose_twice:
  "\<exists>c1. Convolver_dispose c = Inr c1 \<and> Convolver_dispose c1 = Inr c1"
proof -
  let ?D = "owned_nodes c \<union> {effectSend c, effectReturn c, u_convolver c}"
  let ?R = "owned_nodes c \<union> {effectSend c, effectReturn c}"
  let ?c1 = "c\<lparr>node_context := released ?D ?R (node_context c),
            u_internalChannels := [], disposed := True,
            u_buffer := ToneAudioBuffer_dispose (u_buffer c)\<rparr>"
  have sub: "owned_nodes ?c1 \<subseteq> owned_nodes c"
    by (auto simp: owned_nodes_def)
  have ctx: "released (owned_nodes ?c1 \<union> {effectSend c, effectReturn c, u_convolver c})
                (owned_nodes ?c1 \<union> {effectSend c, effectReturn c}) (released ?D ?R (node_context c)) =
             released ?D ?R (node_context c)"
    using sub by (intro released_absorb) auto
  have "Convolver_dispose ?c1 = Inr ?c1"
    unfolding Convolver_dispose_eq [of ?c1]
    using ctx by (simp add: ToneAudioBuffer_dispose_def)
  then show ?thesis
    unfolding Convolver_dispose_eq [of c] by blast
qed

lemma CrossFade_dispose_eq:
  "CrossFade_dispose x =
     Inr (x\<lparr>node_context :=
              released
                (owned_nodes x \<union> {a x, b x, signal_node (fade x), u_g2a x, u_panner x, u_split x})
                (owned_nodes x \<union> {a x, b x, signal_node (fade x), u_g2a x})
                (node_context x),
            u_internalChannels := [], disposed := True\<rparr>)"
proof -
  let ?raw = "disconnect (u_split x) (disconnect (u_panner x) (disposeNode (u_g2a x)
      (disposeNode (signal_node (fade x))
        (released (set (port_nodes (node_output x))) (set (port_nodes (node_output x)))
          (disposeNode (b x) (disposeNode (a x)
            (released (owned_nodes x) (owned_nodes x) (node_context x))))))))"
  have 1: "CrossFade_dispose x =
     Inr (x\<lparr>node_context := ?raw, u_internalChannels := [], disposed := True\<rparr>)"
    by (simp add: CrossFade_dispose_def Let_def ToneAudioNode_dispose_eq fold_disposeNode_released)
  have 2: "?raw = released
                (owned_nodes x \<union> {a x, b x, signal_node (fade x), u_g2a x, u_panner x, u_split x})
                (owned_nodes x \<union> {a x, b x, signal_node (fade x), u_g2a x})
                (node_context x)"
    unfolding disconnect_released disposeNode_released released_released
    by (rule released_cong) (auto simp: owned_nodes_def)
  show ?thesis
    unfolding 1 2 ..
qed

lemma CrossFade_dispose_twice:
  "\<exists>x1. CrossFade_dispose x = Inr x1 \<and> CrossFade_dispose x1 = Inr x1"
proof -
  let ?D = "owned_nodes x \<union> {a x, b x, signal_node (fade x), u_g2a x, u_panner x, u_split x}"
  let ?R = "owned_nodes x \<union> {a x, b x, signal_node (fade x), u_g2a x}"
  let ?x1 = "x\<lparr>node_context := released ?D ?R (node_context x),
            u_internalChannels := [], disposed := True\<rparr>"
  have sub: "owned_nodes ?x1 \<subseteq> owned_nodes x"
    by (auto simp: owned_nodes_def)
  have ctx: "released
       (owned_nodes ?x1 \<union> {a x, b x, signal_node (fade x), u_g2a x, u_panner x, u_split x})
       (owned_nodes ?x1 \<union> {a x, b x, signal_node (fade x), u_g2a x})
       (released ?D ?R (node_context x)) = released ?D ?R (node_context x)"
    using sub by (intro released_absorb) auto
  have "CrossFade_dispose ?x1 = Inr ?x1"
    unfolding CrossFade_dispose_eq [of ?x1]
    using ctx by simp
  then show ?thesis
    unfolding CrossFade_dispose_eq [of x] by blast
qed

lemma AmplitudeEnvelope_dispose_eq:
  "AmplitudeEnvelope_dispose e =
     Inr (e\<lparr>node_context :=
              released (owned_nodes e \<union> {signal_node (u_sig e), u_gainNode e})
                (owned_nodes e \<union> {signal_node (u_sig e), u_gainNode e}) (node_context e),
            u_internalChannels := [], disposed := True\<rparr>)"
proof -
  let ?raw = "disposeNode (u_gainNode e) (disposeNode (signal_node (u_sig e))
      (released (owned_nodes e) (owned_nodes e) (node_context e)))"
  have 1: "AmplitudeEnvelope_dispose e =
     Inr (e\<lparr>node_context := ?raw, u_internalChannels := [], disposed := True\<rparr>)"
    by (simp add: AmplitudeEnvelope_dispose_def Envelope_dispose_def Let_def
        ToneAudioNode_dispose_eq)
  have 2: "?raw = released (owned_nodes e \<union> {signal_node (u_sig e), u_gainNode e})
                (owned_nodes e \<union> {signal_node (u_sig e), u_gainNode e}) (node_context e)"
    unfolding disposeNode_released released_released
    by (rule released_cong) auto
  show ?thesis
    unfolding 1 2 ..
qed

lemma AmplitudeEnvelope_dispose_twice:
  "\<exists>e1. AmplitudeEnvelope_dispose e = Inr e1 \<and> AmplitudeEnvelope_dispose e1 = Inr e1"
proof -
  let ?D = "owned_nodes e \<union> {signal_node (u_sig e), u_gainNode e}"
  let ?e1 = "e\<lparr>node_context := released ?D ?D (node_context e),
            u_internalChannels := [], disposed := True\<rparr>"
  have sub: "owned_nodes ?e1 \<subseteq> owned_nodes e"
    by (auto simp: owned_nodes_def)
  have ctx: "released (owned_nodes ?e1 \<union> {signal_node (u_sig e), u_gainNode e})
       (owned_nodes ?e1 \<union> {signal_node (u_sig e), u_gainNode e})
       (released ?D ?D (node_context e)) = released ?D ?D (node_context e)"
    using sub by (intro released_absorb) auto
  have "AmplitudeEnvelope_dispose ?e1 = Inr ?e1"
    unfolding AmplitudeEnvelope_dispose_eq [of ?e1]
    using ctx by simp
  then show ?thesis
    unfolding AmplitudeEnvelope_dispose_eq [of e] by blast
qed

text \<open>
  Claim C7. For a Convolver, a CrossFade and an AmplitudeEnvelope in any state,
  \<^verbatim>\<open>dispose\<close> returns without an error, and a second \<^verbatim>\<open>dispose\<close> on the result returns
  without an error and changes nothing.
\<close>

theorem dispose_twice:
  "(\<exists>c1. Convolver_dispose c = Inr c1 \<and> Convolver_dispose c1 = Inr c1) \<and>
   (\<exists>x1. CrossFade_dispose x = Inr x1 \<and> CrossFade_dispose x1 = Inr x1) \<and>
   (\<exists>e1. AmplitudeEnvelope_dispose e = Inr e1 \<and> AmplitudeEnvelope_dispose e1 = Inr e1)"
  using Convolver_dispose_twice CrossFade_dispose_twice AmplitudeEnvelope_dispose_twice
  by blast

section \<open>Properties of the AmplitudeEnvelope\<close>















end
